theory Spec2Isabelle
  imports Complex_Main "HOL-Library.Multiset"
begin

section \<open>Data model\<close>

text \<open>
  The exceptions that the library calls of \<^verbatim>\<open>table_extractors.py\<close> raise on failure.
  All of them are subclasses of Python's \<^verbatim>\<open>Exception\<close>: a handler
  \<^verbatim>\<open>except Exception\<close> and a bare \<^verbatim>\<open>except:\<close> catch every one of them, a
  handler \<^verbatim>\<open>except ImportError\<close> catches \<open>ImportError\<close> only.
\<close>

datatype exn = ImportError | IndexError | OSError | RuntimeError

text \<open>
  A cell of a pandas DataFrame: a string, or a missing value (\<^verbatim>\<open>None\<close>/\<^verbatim>\<open>NaN\<close>),
  which is what \<^verbatim>\<open>isna\<close> detects.
\<close>

datatype cell = Str string | NaN

fun isna :: "cell \<Rightarrow> bool" where
  "isna NaN = True"
| "isna (Str s) = False"

text \<open>
  A column label: the position given by the default \<^verbatim>\<open>RangeIndex\<close>, or a cell value
  after \<^verbatim>\<open>df.columns = df.iloc[0]\<close>.
\<close>

datatype label = Idx nat | Lbl cell

text \<open>
  A DataFrame: its column labels, its rows of values and the \<^verbatim>\<open>attrs['page']\<close> entry
  (\<open>None\<close> while \<^verbatim>\<open>attrs\<close> is the empty dict).
\<close>

record dataframe =
  df_columns :: "label list"
  df_values :: "cell list list"
  df_page :: "int option"

text \<open>\<^verbatim>\<open>table.shape\<close>: (number of rows, number of columns).\<close>

definition shape :: "dataframe \<Rightarrow> nat \<times> nat" where
  "shape t = (length (df_values t), length (df_columns t))"

text \<open>\<^verbatim>\<open>table.empty\<close>: true when one of the two axes has length 0.\<close>

definition empty_df :: "dataframe \<Rightarrow> bool" where
  "empty_df t = (fst (shape t) = 0 \<or> snd (shape t) = 0)"

text \<open>The number of cells of the grid that hold a non-blank string.\<close>

definition nonempty_cells :: "dataframe \<Rightarrow> nat" where
  "nonempty_cells t = length (filter (\<lambda>c. c \<noteq> NaN \<and> c \<noteq> Str []) (concat (df_values t)))"

section \<open>The reconciler: \<^verbatim>\<open>combine_tables\<close>\<close>

text \<open>Decimal rendering of a natural number, as the f-string \<^verbatim>\<open>f"{n}"\<close> prints it.\<close>

definition digit_char :: "nat \<Rightarrow> char" where
  "digit_char d = char_of (48 + d)"

fun str_nat :: "nat \<Rightarrow> string" where
  "str_nat n = (if n < 10 then [digit_char n] else str_nat (n div 10) @ [digit_char (n mod 10)])"

declare str_nat.simps [simp del]

text \<open>The number that a string of decimal digits denotes.\<close>

definition val_str :: "string \<Rightarrow> nat" where
  "val_str s = foldl (\<lambda>a c. 10 * a + (of_char c - 48)) 0 s"

text \<open>
  \<^verbatim>\<open>table.iloc[:sample_rows, :sample_cols].values.flatten()\<close> with
  \<^verbatim>\<open>sample_rows = min(3, shape[0])\<close> and \<^verbatim>\<open>sample_cols = min(3, shape[1])\<close>.
\<close>

definition sample_flat :: "dataframe \<Rightarrow> cell list" where
  "sample_flat t =
     (let sample_rows = min 3 (fst (shape t));
          sample_cols = min 3 (snd (shape t))
      in concat (map (take sample_cols) (take sample_rows (df_values t))))"

text \<open>
  The signature \<^verbatim>\<open>f"{shape_sig}:{data_sig}"\<close>. The parameter \<open>np_str\<close> stands for numpy's
  \<^verbatim>\<open>str\<close> of a one-dimensional array, which is library code.
\<close>

definition signature :: "(cell list \<Rightarrow> string) \<Rightarrow> dataframe \<Rightarrow> string" where
  "signature np_str t =
     (let shape_sig = str_nat (fst (shape t)) @ ''x'' @ str_nat (snd (shape t));
          data_sig = np_str (sample_flat t)
      in shape_sig @ '':'' @ data_sig)"

text \<open>
  The loop over \<open>tables\<close>, with its two accumulators \<open>unique_tables\<close> and
  \<open>table_signatures\<close>.
\<close>

fun dedup_loop ::
  "(cell list \<Rightarrow> string) \<Rightarrow> dataframe list \<Rightarrow> dataframe list \<Rightarrow> string set \<Rightarrow> dataframe list" where
  "dedup_loop np_str [] unique_tables table_signatures = unique_tables"
| "dedup_loop np_str (t # ts) unique_tables table_signatures =
     (if empty_df t then dedup_loop np_str ts unique_tables table_signatures
      else if signature np_str t \<notin> table_signatures
        then dedup_loop np_str ts (unique_tables @ [t]) (insert (signature np_str t) table_signatures)
        else dedup_loop np_str ts unique_tables table_signatures)"

definition combine_tables :: "(cell list \<Rightarrow> string) \<Rightarrow> dataframe list list \<Rightarrow> dataframe list" where
  "combine_tables np_str all_tables =
     (if all_tables = [] then []
      else dedup_loop np_str (filter (\<lambda>t. \<not> empty_df t) (concat all_tables)) [] {})"

text \<open>
  What the specification says of the reconciler, in its own words: of the candidates with
  an identical signature only the first-encountered one is kept.
\<close>

fun keep_first :: "('a \<Rightarrow> 'b) \<Rightarrow> 'a list \<Rightarrow> 'a list" where
  "keep_first g [] = []"
| "keep_first g (x # xs) = x # keep_first g (filter (\<lambda>y. g y \<noteq> g x) xs)"

text \<open>A stringifier to run the reconciler on concrete tables.\<close>

fun cell_repr :: "cell \<Rightarrow> string" where
  "cell_repr (Str s) = ''<'' @ s @ ''>''"
| "cell_repr NaN = ''nan''"

definition example_str :: "cell list \<Rightarrow> string" where
  "example_str cs = ''['' @ concat (map cell_repr cs) @ '']''"

section \<open>The libraries, as the code sees them\<close>

text \<open>
  The text blocks of \<^verbatim>\<open>page.get_text("blocks")\<close>: the tuple
  \<^verbatim>\<open>(x0, y0, x1, y1, text, block_no, ...)\<close>. \<^verbatim>\<open>block[:4]\<close> is the rectangle,
  \<^verbatim>\<open>block[1]\<close> the sort key and \<^verbatim>\<open>block[4]\<close> the text.
\<close>

record rect =
  x0 :: real
  y0 :: real
  x1 :: real
  y1 :: real

record text_block =
  b_rect :: rect
  b_text :: string
  b_no :: nat

text \<open>
  A table found by \<^verbatim>\<open>page.find_tables()\<close>: its rectangle, its counts and
  \<^verbatim>\<open>extract_cell(i, j)\<close>, which gives a cell with a text or a falsy value (\<open>None\<close>).
\<close>

record fitz_table =
  t_rect :: rect
  row_count :: nat
  column_count :: nat
  extract_cell :: "nat \<Rightarrow> nat \<Rightarrow> string option"

record page =
  page_text :: "nat list"
  page_blocks :: "text_block list"
  page_find_tables :: "exn + fitz_table list"

record camelot_table =
  c_df :: dataframe
  accuracy :: real

datatype flavor = Lattice | Stream

text \<open>
  Everything outside the repository that the code calls, for one run of the program: a call
  returns its value (\<open>Inr\<close>) or raises (\<open>Inl\<close>), and the same call gives the same answer
  every time during the run.
\<close>

record world =
  fitz_open :: "string \<Rightarrow> exn + page list"
  camelot_read_pdf :: "string \<Rightarrow> string \<Rightarrow> flavor \<Rightarrow> exn + camelot_table list"
  tabula_read_pdf :: "string \<Rightarrow> int \<Rightarrow> flavor \<Rightarrow> exn + dataframe list"
  import_jpype :: "exn + unit"
  java_version :: "exn + unit"
  np_str :: "cell list \<Rightarrow> string"
  rect_intersects :: "rect \<Rightarrow> rect \<Rightarrow> bool"

text \<open>
  \<^verbatim>\<open>doc[page_num]\<close> of PyMuPDF: an index at or above the page count raises
  \<^verbatim>\<open>IndexError\<close>, a negative index counts from the end (as often as needed). A document
  opened from a file has at least one page; on a list without pages the model raises.
\<close>

definition doc_getitem :: "page list \<Rightarrow> int \<Rightarrow> exn + page" where
  "doc_getitem doc i =
     (if doc = [] \<or> i \<ge> int (length doc) then Inl IndexError
      else Inr (doc ! nat (i mod int (length doc))))"

text \<open>\<^verbatim>\<open>str(n)\<close> of an integer.\<close>

definition str_int :: "int \<Rightarrow> string" where
  "str_int i = (if i < 0 then ''-'' @ str_nat (nat (- i)) else str_nat (nat i))"

text \<open>
  \<^verbatim>\<open>text.strip()\<close>: leading and trailing whitespace removed. The text of a page is a
  Python \<^verbatim>\<open>str\<close>, modelled as the list of its code points, and the whitespace is the one
  of \<^verbatim>\<open>str.isspace\<close>: U+0009 to U+000D, U+001C to U+0020, U+0085, U+00A0, U+1680, U+2000 to
  U+200A, U+2028, U+2029, U+202F, U+205F and U+3000.
\<close>

definition is_space :: "nat \<Rightarrow> bool" where
  "is_space c =
     ((9 \<le> c \<and> c \<le> 13) \<or> (28 \<le> c \<and> c \<le> 32) \<or> c = 133 \<or> c = 160 \<or> c = 5760
      \<or> (8192 \<le> c \<and> c \<le> 8202) \<or> c = 8232 \<or> c = 8233 \<or> c = 8239 \<or> c = 8287
      \<or> c = 12288)"

definition strip :: "nat list \<Rightarrow> nat list" where
  "strip s = rev (dropWhile is_space (rev (dropWhile is_space s)))"

section \<open>The table backends\<close>

text \<open>\<^verbatim>\<open>pd.DataFrame(rows)\<close>: default column labels, short rows padded with missing values.\<close>

definition DataFrame :: "cell list list \<Rightarrow> dataframe" where
  "DataFrame rows =
     (let n = fold max (map length rows) 0
      in \<lparr>df_columns = map Idx [0..<n],
          df_values = map (\<lambda>r. r @ replicate (n - length r) NaN) rows,
          df_page = None\<rparr>)"

text \<open>The body of the loop over the tables of \<^verbatim>\<open>PyMuPDFTableExtractor.extract_tables\<close>.\<close>

definition table_rows :: "fitz_table \<Rightarrow> cell list list" where
  "table_rows t =
     map (\<lambda>i. map (\<lambda>j. case extract_cell t i j of Some text \<Rightarrow> Str text | None \<Rightarrow> Str [])
                  [0..<column_count t])
         [0..<row_count t]"

definition promote_header :: "dataframe \<Rightarrow> dataframe" where
  "promote_header df =
     (if \<not> empty_df df \<and> \<not> list_all isna (hd (df_values df))
      then df\<lparr>df_columns := map Lbl (hd (df_values df)), df_values := tl (df_values df)\<rparr>
      else df)"

definition table_to_dfs :: "fitz_table \<Rightarrow> dataframe list" where
  "table_to_dfs t =
     (let rows = table_rows t
      in if rows \<noteq> [] then [promote_header (DataFrame rows)] else [])"

definition pymupdf_extract_tables :: "world \<Rightarrow> string \<Rightarrow> int \<Rightarrow> exn + dataframe list" where
  "pymupdf_extract_tables w pdf_path page_num =
     (case fitz_open w pdf_path of
        Inl e \<Rightarrow> Inl e
      | Inr doc \<Rightarrow>
          (case doc_getitem doc page_num of
             Inl e \<Rightarrow> Inl e
           | Inr page \<Rightarrow>
               (case page_find_tables page of
                  Inl e \<Rightarrow> Inl e
                | Inr tables \<Rightarrow> Inr (concat (map table_to_dfs tables)))))"

text \<open>\<^verbatim>\<open>CamelotTableExtractor.extract_tables\<close>: the whole body is under \<^verbatim>\<open>except Exception\<close>.\<close>

definition camelot_extract_tables :: "world \<Rightarrow> string \<Rightarrow> int \<Rightarrow> exn + dataframe list" where
  "camelot_extract_tables w pdf_path page_num =
     (case camelot_read_pdf w pdf_path (str_int (page_num + 1)) Lattice of
        Inl e \<Rightarrow> Inr []
      | Inr tables \<Rightarrow>
          if length tables = 0 \<or> (length tables > 0 \<and> accuracy (hd tables) < 80)
          then (case camelot_read_pdf w pdf_path (str_int (page_num + 1)) Stream of
                  Inl e \<Rightarrow> Inr []
                | Inr stream_tables \<Rightarrow>
                    if length stream_tables > 0 \<and>
                       (length tables = 0 \<or> accuracy (hd stream_tables) > accuracy (hd tables))
                    then Inr (map c_df stream_tables)
                    else Inr (map c_df tables))
          else Inr (map c_df tables))"

text \<open>\<^verbatim>\<open>TabulaTableExtractor.extract_tables\<close>, under \<^verbatim>\<open>except Exception\<close> as well.\<close>

definition tabula_extract_tables :: "world \<Rightarrow> string \<Rightarrow> int \<Rightarrow> exn + dataframe list" where
  "tabula_extract_tables w pdf_path page_num =
     (case tabula_read_pdf w pdf_path (page_num + 1) Lattice of
        Inl e \<Rightarrow> Inr []
      | Inr tables \<Rightarrow>
          if tables = []
          then (case tabula_read_pdf w pdf_path (page_num + 1) Stream of
                  Inl e \<Rightarrow> Inr []
                | Inr tables' \<Rightarrow> Inr tables')
          else Inr tables)"

text \<open>
  The compatibility probes. The base class answers \<^verbatim>\<open>True\<close>; Camelot's probe is under a
  bare \<^verbatim>\<open>except:\<close>; Tabula's import is under \<^verbatim>\<open>except ImportError\<close> and its call of
  \<^verbatim>\<open>java -version\<close> under a bare \<^verbatim>\<open>except:\<close>.
\<close>

definition camelot_is_compatible :: "world \<Rightarrow> string \<Rightarrow> exn + bool" where
  "camelot_is_compatible w pdf_path =
     (case fitz_open w pdf_path of
        Inl e \<Rightarrow> Inr False
      | Inr doc \<Rightarrow>
          (case doc_getitem doc 0 of
             Inl e \<Rightarrow> Inr False
           | Inr page \<Rightarrow> Inr (length (strip (page_text page)) > 0)))"

definition tabula_is_compatible :: "world \<Rightarrow> string \<Rightarrow> exn + bool" where
  "tabula_is_compatible w pdf_path =
     (case import_jpype w of
        Inr u \<Rightarrow> Inr True
      | Inl e \<Rightarrow>
          if e = ImportError
          then (case java_version w of Inr u \<Rightarrow> Inr True | Inl e' \<Rightarrow> Inr False)
          else Inl e)"

datatype extractor = PyMuPDFTableExtractor | CamelotTableExtractor | TabulaTableExtractor

fun extract_tables :: "extractor \<Rightarrow> world \<Rightarrow> string \<Rightarrow> int \<Rightarrow> exn + dataframe list" where
  "extract_tables PyMuPDFTableExtractor = pymupdf_extract_tables"
| "extract_tables CamelotTableExtractor = camelot_extract_tables"
| "extract_tables TabulaTableExtractor = tabula_extract_tables"

fun is_compatible :: "extractor \<Rightarrow> world \<Rightarrow> string \<Rightarrow> exn + bool" where
  "is_compatible PyMuPDFTableExtractor w pdf_path = Inr True"
| "is_compatible CamelotTableExtractor w pdf_path = camelot_is_compatible w pdf_path"
| "is_compatible TabulaTableExtractor w pdf_path = tabula_is_compatible w pdf_path"

section \<open>The backend selector\<close>

definition create_extractors :: "extractor list" where
  "create_extractors = [PyMuPDFTableExtractor, CamelotTableExtractor, TabulaTableExtractor]"

text \<open>
  The list comprehension \<^verbatim>\<open>[e for e in extractors if e.is_compatible(pdf_path)]\<close>: the
  probes run in the order of the list, and one that raises ends the comprehension.
\<close>

fun compatible_extractors :: "world \<Rightarrow> string \<Rightarrow> extractor list \<Rightarrow> exn + extractor list" where
  "compatible_extractors w pdf_path [] = Inr []"
| "compatible_extractors w pdf_path (e # es) =
     (case is_compatible e w pdf_path of
        Inl x \<Rightarrow> Inl x
      | Inr c \<Rightarrow>
          (case compatible_extractors w pdf_path es of
             Inl x \<Rightarrow> Inl x
           | Inr cs \<Rightarrow> Inr (if c then e # cs else cs)))"

text \<open>The part of \<^verbatim>\<open>get_best_extractor\<close> that follows the comprehension.\<close>

definition choose_best :: "extractor list \<Rightarrow> extractor" where
  "choose_best cs =
     (if cs = [] then PyMuPDFTableExtractor
      else (case find (\<lambda>e. e = CamelotTableExtractor) cs of
              Some e \<Rightarrow> e
            | None \<Rightarrow>
                (case find (\<lambda>e. e = TabulaTableExtractor) cs of
                   Some e \<Rightarrow> e
                 | None \<Rightarrow> hd cs)))"

definition get_best_extractor :: "world \<Rightarrow> string \<Rightarrow> exn + extractor" where
  "get_best_extractor w pdf_path =
     (case compatible_extractors w pdf_path create_extractors of
        Inl x \<Rightarrow> Inl x
      | Inr cs \<Rightarrow> Inr (choose_best cs))"

section \<open>The pipeline: \<^verbatim>\<open>extract_all_tables\<close>\<close>

text \<open>The loop \<^verbatim>\<open>for extractor in create_extractors()\<close> that runs when no table was found.\<close>

fun try_all ::
  "world \<Rightarrow> string \<Rightarrow> int \<Rightarrow> extractor list \<Rightarrow> dataframe list list \<Rightarrow> exn + dataframe list list" where
  "try_all w pdf_path page_num [] page_tables = Inr page_tables"
| "try_all w pdf_path page_num (e # es) page_tables =
     (case is_compatible e w pdf_path of
        Inl x \<Rightarrow> Inl x
      | Inr c \<Rightarrow>
          if c
          then (case extract_tables e w pdf_path page_num of
                  Inl x \<Rightarrow> Inl x
                | Inr tables \<Rightarrow>
                    try_all w pdf_path page_num es
                      (if tables \<noteq> [] then page_tables @ [tables] else page_tables))
          else try_all w pdf_path page_num es page_tables)"

text \<open>The value of \<open>page_tables\<close> when \<^verbatim>\<open>combine_tables(page_tables)\<close> is called.\<close>

definition page_candidates :: "world \<Rightarrow> string \<Rightarrow> int \<Rightarrow> exn + dataframe list list" where
  "page_candidates w pdf_path page_num =
     (case get_best_extractor w pdf_path of
        Inl x \<Rightarrow> Inl x
      | Inr extractor \<Rightarrow>
          (case extract_tables extractor w pdf_path page_num of
             Inl x \<Rightarrow> Inl x
           | Inr tables \<Rightarrow>
               (let page_tables = (if tables \<noteq> [] then [tables] else [])
                in if tables = []
                   then try_all w pdf_path page_num create_extractors page_tables
                   else Inr page_tables)))"

text \<open>
  What the specification says of the fallback, in its own words: the page is run through
  each backend of a list, in order; a backend that fails counts for zero candidates; the
  non-empty results are put together.
\<close>

fun collect_results ::
  "world \<Rightarrow> string \<Rightarrow> int \<Rightarrow> extractor list \<Rightarrow> dataframe list list" where
  "collect_results w pdf_path page_num [] = []"
| "collect_results w pdf_path page_num (e # es) =
     (case extract_tables e w pdf_path page_num of
        Inl x \<Rightarrow> collect_results w pdf_path page_num es
      | Inr tables \<Rightarrow>
          if tables \<noteq> [] then tables # collect_results w pdf_path page_num es
          else collect_results w pdf_path page_num es)"

fun pages_loop ::
  "world \<Rightarrow> string \<Rightarrow> int \<Rightarrow> int list \<Rightarrow> dataframe list \<Rightarrow> exn + dataframe list" where
  "pages_loop w pdf_path n [] all_tables = Inr all_tables"
| "pages_loop w pdf_path n (page_num # page_nums) all_tables =
     (if page_num \<ge> n then pages_loop w pdf_path n page_nums all_tables
      else (case page_candidates w pdf_path page_num of
              Inl x \<Rightarrow> Inl x
            | Inr page_tables \<Rightarrow>
                (let unique_tables = combine_tables (np_str w) page_tables
                 in pages_loop w pdf_path n page_nums
                      (all_tables @ map (\<lambda>table. table\<lparr>df_page := Some page_num\<rparr>) unique_tables))))"

text \<open>\<open>page_nums\<close> is \<open>None\<close> for the default argument, which stands for every page.\<close>

definition extract_all_tables :: "world \<Rightarrow> string \<Rightarrow> int list option \<Rightarrow> exn + dataframe list" where
  "extract_all_tables w pdf_path page_nums =
     (case fitz_open w pdf_path of
        Inl x \<Rightarrow> Inl x
      | Inr doc \<Rightarrow>
          pages_loop w pdf_path (int (length doc))
            (case page_nums of None \<Rightarrow> map int [0..<length doc] | Some ps \<Rightarrow> ps) [])"

section \<open>The conversion to DOCX: \<^verbatim>\<open>pdf_to_docx\<close>\<close>

text \<open>What the styler appends to the document.\<close>

datatype render_unit =
    Heading string nat
  | Paragraph string bool "nat option"
  | DocTable dataframe string
  | PageBreak

definition get_table_style_name :: "string \<Rightarrow> string" where
  "get_table_style_name style_option =
     (if style_option = ''basic'' then ''Table Normal''
      else if style_option = ''grid'' then ''Table Grid''
      else if style_option = ''light'' then ''Light List''
      else if style_option = ''fancy'' then ''Medium Shading 1 Accent 1''
      else ''Table Grid'')"

text \<open>
  \<^verbatim>\<open>add_table_from_dataframe\<close> with the header row: \<^verbatim>\<open>add_styled_table\<close> adds nothing
  when the data has no column.
\<close>

definition add_table_from_dataframe :: "dataframe \<Rightarrow> string \<Rightarrow> render_unit list" where
  "add_table_from_dataframe df style = (if df_columns df = [] then [] else [DocTable df style])"

definition overlaps_table :: "world \<Rightarrow> rect list \<Rightarrow> text_block \<Rightarrow> bool" where
  "overlaps_table w table_positions block =
     list_ex (\<lambda>table_pos. rect_intersects w (b_rect block) table_pos) table_positions"

text \<open>The blocks that the loop \<^verbatim>\<open>for block in blocks\<close> of the branch with tables adds.\<close>

definition free_blocks :: "world \<Rightarrow> rect list \<Rightarrow> text_block list \<Rightarrow> text_block list" where
  "free_blocks w table_positions blocks =
     filter (\<lambda>block. \<not> overlaps_table w table_positions block)
       (sort_key (\<lambda>b. y0 (b_rect b)) blocks)"

definition table_units :: "string \<Rightarrow> dataframe \<Rightarrow> render_unit list" where
  "table_units table_style table =
     [Paragraph ''Table'' True (Some 12)]
       @ add_table_from_dataframe table (get_table_style_name table_style)
       @ [Paragraph [] False None]"

text \<open>
  The body of the loop over the pages; \<open>n\<close> is \<^verbatim>\<open>len(pdf)\<close>, and \<open>with_tables\<close> is the
  empty list for \<^verbatim>\<open>None\<close>.
\<close>

definition docx_page ::
  "world \<Rightarrow> page \<Rightarrow> int \<Rightarrow> int \<Rightarrow> dataframe list \<Rightarrow> string \<Rightarrow> exn + render_unit list" where
  "docx_page w page page_num n with_tables table_style =
     (let heading = Heading (''Page '' @ str_int (page_num + 1)) 1;
          page_tables = (if with_tables \<noteq> []
                         then filter (\<lambda>table. df_page table = Some page_num) with_tables
                         else []);
          break = (if page_num < n - 1 then [PageBreak] else [])
      in if page_tables \<noteq> []
         then (case page_find_tables page of
                 Inl x \<Rightarrow> Inl x
               | Inr tables \<Rightarrow>
                   Inr (heading
                        # map (\<lambda>block. Paragraph (b_text block) False None)
                            (free_blocks w (map t_rect tables) (page_blocks page))
                        @ concat (map (table_units table_style) page_tables)
                        @ break))
         else Inr (heading
                   # map (\<lambda>block. Paragraph (b_text block) False None)
                       (sort_key (\<lambda>b. y0 (b_rect b)) (page_blocks page))
                   @ break))"

fun docx_pages ::
  "world \<Rightarrow> page list \<Rightarrow> int \<Rightarrow> int \<Rightarrow> dataframe list \<Rightarrow> string \<Rightarrow> exn + render_unit list" where
  "docx_pages w [] page_num n with_tables table_style = Inr []"
| "docx_pages w (page # pages) page_num n with_tables table_style =
     (case docx_page w page page_num n with_tables table_style of
        Inl x \<Rightarrow> Inl x
      | Inr units \<Rightarrow>
          (case docx_pages w pages (page_num + 1) n with_tables table_style of
             Inl x \<Rightarrow> Inl x
           | Inr rest \<Rightarrow> Inr (units @ rest)))"

definition pdf_to_docx :: "world \<Rightarrow> string \<Rightarrow> dataframe list \<Rightarrow> string \<Rightarrow> exn + render_unit list" where
  "pdf_to_docx w pdf_path with_tables table_style =
     (case fitz_open w pdf_path of
        Inl x \<Rightarrow> Inl x
      | Inr pdf \<Rightarrow> docx_pages w pdf 0 (int (length pdf)) with_tables table_style)"

section \<open>Example inputs\<close>

text \<open>
  Two 3x4 tables with the same first three columns and another fourth column, a 1x1 table
  whose only cell is the empty string, and a table with columns and no row.
\<close>

definition corner_a :: dataframe where
  "corner_a = \<lparr>df_columns = map Idx [0..<4],
      df_values = [[Str ''a'', Str ''b'', Str ''c'', Str ''d''],
                   [Str ''e'', Str ''f'', Str ''g'', Str ''h''],
                   [Str ''i'', Str ''j'', Str ''k'', Str ''l'']],
      df_page = None\<rparr>"

definition corner_b :: dataframe where
  "corner_b = \<lparr>df_columns = map Idx [0..<4],
      df_values = [[Str ''a'', Str ''b'', Str ''c'', Str ''X''],
                   [Str ''e'', Str ''f'', Str ''g'', Str ''Y''],
                   [Str ''i'', Str ''j'', Str ''k'', Str ''Z'']],
      df_page = None\<rparr>"

definition blank_1x1 :: dataframe where
  "blank_1x1 = \<lparr>df_columns = [Idx 0], df_values = [[Str []]], df_page = None\<rparr>"

definition no_rows :: dataframe where
  "no_rows = \<lparr>df_columns = [Idx 0, Idx 1], df_values = [], df_page = None\<rparr>"

text \<open>
  A table of two rows and two columns found by PyMuPDF: the first row holds a text and a
  cell without text.
\<close>

definition header_table :: fitz_table where
  "header_table = \<lparr>t_rect = \<lparr>x0 = 0, y0 = 100, x1 = 100, y1 = 150\<rparr>,
     row_count = 2, column_count = 2,
     extract_cell = (\<lambda>i j. if i = 0 then (if j = 0 then Some ''Name'' else None)
                            else Some ''v'')\<rparr>"

text \<open>
  A rectangle test to run the conversion on concrete pages: the open interiors meet.
\<close>

definition example_intersects :: "rect \<Rightarrow> rect \<Rightarrow> bool" where
  "example_intersects r s = (x0 r < x1 s \<and> x0 s < x1 r \<and> y0 r < y1 s \<and> y0 s < y1 r)"

text \<open>
  A document of one page, whose blocks come in the order footer, table text, title: a title
  above the table, a block inside the rectangle of the table and a footer below it. Camelot
  and Tabula find no table in it.
\<close>

definition footer_block :: text_block where
  "footer_block = \<lparr>b_rect = \<lparr>x0 = 0, y0 = 160, x1 = 100, y1 = 170\<rparr>, b_text = ''Footer'', b_no = 0\<rparr>"

definition inner_block :: text_block where
  "inner_block = \<lparr>b_rect = \<lparr>x0 = 10, y0 = 110, x1 = 50, y1 = 120\<rparr>, b_text = ''Name'', b_no = 1\<rparr>"

definition top_block :: text_block where
  "top_block = \<lparr>b_rect = \<lparr>x0 = 0, y0 = 10, x1 = 100, y1 = 20\<rparr>, b_text = ''Title'', b_no = 2\<rparr>"

definition example_page :: page where
  "example_page = \<lparr>page_text = map of_char ''Title Name v v Footer'',
     page_blocks = [footer_block, inner_block, top_block],
     page_find_tables = Inr [header_table]\<rparr>"

definition one_page_world :: world where
  "one_page_world = \<lparr>fitz_open = (\<lambda>path. Inr [example_page]),
     camelot_read_pdf = (\<lambda>path pages fl. Inr []),
     tabula_read_pdf = (\<lambda>path pages fl. Inr []),
     import_jpype = Inr (),
     java_version = Inr (),
     np_str = example_str,
     rect_intersects = example_intersects\<rparr>"

text \<open>The same, with a file that cannot be opened and backends that fail.\<close>

definition unopenable_world :: world where
  "unopenable_world = \<lparr>fitz_open = (\<lambda>path. Inl OSError),
     camelot_read_pdf = (\<lambda>path pages fl. Inl OSError),
     tabula_read_pdf = (\<lambda>path pages fl. Inl RuntimeError),
     import_jpype = Inl ImportError,
     java_version = Inl OSError,
     np_str = example_str,
     rect_intersects = example_intersects\<rparr>"

text \<open>The same as the first, with a \<^verbatim>\<open>jpype\<close> whose import fails with another exception.\<close>

definition broken_jpype_world :: world where
  "broken_jpype_world = one_page_world\<lparr>import_jpype := Inl OSError\<rparr>"

text \<open>The table that the PyMuPDF backend extracts from the example page.\<close>

definition example_df :: dataframe where
  "example_df = \<lparr>df_columns = [Lbl (Str ''Name''), Lbl (Str [])],
     df_values = [[Str ''v'', Str ''v'']], df_page = None\<rparr>"

text \<open>
  The table that Tabula reports for the same grid: it names the blank header cell. The world
  where Tabula finds it, and the world where moreover the table search of PyMuPDF fails.
\<close>

definition tabula_df :: dataframe where
  "tabula_df = \<lparr>df_columns = [Lbl (Str ''Name''), Lbl (Str ''Unnamed: 1'')],
     df_values = [[Str ''v'', Str ''v'']], df_page = None\<rparr>"

definition tabula_world :: world where
  "tabula_world = one_page_world\<lparr>tabula_read_pdf := (\<lambda>path pages fl. Inr [tabula_df])\<rparr>"

definition raising_page :: page where
  "raising_page = example_page\<lparr>page_find_tables := Inl RuntimeError\<rparr>"

definition raising_world :: world where
  "raising_world = tabula_world\<lparr>fitz_open := (\<lambda>path. Inr [raising_page])\<rparr>"

section \<open>Properties of the reconciler\<close>

lemma keep_first_subset: "set (keep_first g xs) \<subseteq> set xs"
  by (induction g xs rule: keep_first.induct) auto

lemma keep_first_distinct: "distinct (map g (keep_first g xs))"
proof (induction g xs rule: keep_first.induct)
  case (1 g)
  show ?case by simp
next
  case (2 g x xs)
  have "g x \<notin> g ` set (keep_first g (filter (\<lambda>y. g y \<noteq> g x) xs))"
    using keep_first_subset [of g "filter (\<lambda>y. g y \<noteq> g x) xs"] by auto
  with 2 show ?case by simp
qed

lemma keep_first_id: "distinct (map g xs) \<Longrightarrow> keep_first g xs = xs"
proof (induction xs)
  case Nil
  show ?case by simp
next
  case (Cons x xs)
  from Cons.prems have "\<forall>y \<in> set xs. g y \<noteq> g x"
    by (metis distinct.simps(2) image_eqI list.simps(9) set_map)
  then have "filter (\<lambda>y. g y \<noteq> g x) xs = xs"
    by (simp add: filter_id_conv)
  with Cons show ?case by simp
qed

lemma dedup_loop_keep_first:
  "\<forall>t \<in> set ts. \<not> empty_df t \<Longrightarrow>
   dedup_loop f ts u S = u @ keep_first (signature f) (filter (\<lambda>t. signature f t \<notin> S) ts)"
proof (induction ts arbitrary: u S)
  case Nil
  show ?case by simp
next
  case (Cons t ts)
  have conj_eq: "(\<lambda>ta. signature f ta \<noteq> signature f t \<and> signature f ta \<notin> S)
      = (\<lambda>x. signature f x \<notin> S \<and> signature f x \<noteq> signature f t)"
    by auto
  from Cons show ?case by (simp add: conj_eq)
qed

lemma combine_tables_keep_first:
  "combine_tables f xs = keep_first (signature f) (filter (\<lambda>t. \<not> empty_df t) (concat xs))"
proof (cases "xs = []")
  case True
  then show ?thesis by (simp add: combine_tables_def)
next
  case False
  then show ?thesis
    by (simp add: combine_tables_def dedup_loop_keep_first)
qed

lemma combine_tables_nonempty: "t \<in> set (combine_tables f xs) \<Longrightarrow> \<not> empty_df t"
  using keep_first_subset [of "signature f" "filter (\<lambda>t. \<not> empty_df t) (concat xs)"]
  by (auto simp: combine_tables_keep_first)

lemma sig_corner: "signature example_str corner_b = signature example_str corner_a"
  by (simp add: signature_def sample_flat_def shape_def corner_a_def corner_b_def Let_def)

lemma corner_nonempty: "\<not> empty_df corner_a" "\<not> empty_df corner_b"
  by (simp_all add: empty_df_def shape_def corner_a_def corner_b_def)

section \<open>Claims about the reconciler\<close>

lemma of_char_digit: "d < 10 \<Longrightarrow> (of_char (digit_char d) :: nat) = 48 + d"
  by (simp add: digit_char_def)

lemma val_str_snoc: "val_str (s @ [c]) = 10 * val_str s + (of_char c - 48)"
  by (simp add: val_str_def)

lemma val_str_nat: "val_str (str_nat n) = n"
proof (induction n rule: str_nat.induct)
  case (1 n)
  show ?case
  proof (cases "n < 10")
    case True
    then show ?thesis
      by (simp add: str_nat.simps [of n] val_str_def of_char_digit)
  next
    case False
    with "1" have "val_str (str_nat (n div 10)) = n div 10" by simp
    with False show ?thesis
      by (simp add: str_nat.simps [of n] val_str_snoc of_char_digit)
  qed
qed

lemma str_nat_inj: "str_nat n = str_nat m \<Longrightarrow> n = m"
  by (metis val_str_nat)

lemma str_nat_chars: "c \<in> set (str_nat n) \<Longrightarrow> (of_char c :: nat) < 58"
proof (induction n rule: str_nat.induct)
  case (1 n)
  show ?case
  proof (cases "n < 10")
    case True
    with "1.prems" show ?thesis
      by (simp add: str_nat.simps [of n] of_char_digit)
  next
    case False
    with "1" show ?thesis
      by (auto simp: str_nat.simps [of n] of_char_digit)
  qed
qed

lemma str_nat_no_sep: "CHR ''x'' \<notin> set (str_nat n)" "CHR '':'' \<notin> set (str_nat n)"
  using str_nat_chars [of "CHR ''x''" n] str_nat_chars [of "CHR '':''" n] by auto

lemma split_at_sep:
  "x \<notin> set xs \<Longrightarrow> x \<notin> set xs' \<Longrightarrow>
   (xs @ x # ys = xs' @ x # ys') = (xs = xs' \<and> ys = ys')"
proof (induction xs arbitrary: xs')
  case Nil
  then show ?case by (cases xs') auto
next
  case (Cons a xs)
  then show ?case by (cases xs') auto
qed

lemma signature_eq_iff:
  "(signature f t = signature f u) =
     (shape t = shape u \<and> f (sample_flat t) = f (sample_flat u))"
proof -
  have "(signature f t = signature f u) =
     (str_nat (fst (shape t)) = str_nat (fst (shape u))
      \<and> str_nat (snd (shape t)) @ CHR '':'' # f (sample_flat t)
        = str_nat (snd (shape u)) @ CHR '':'' # f (sample_flat u))"
    by (simp add: signature_def Let_def split_at_sep str_nat_no_sep)
  also have "\<dots> =
     (str_nat (fst (shape t)) = str_nat (fst (shape u))
      \<and> str_nat (snd (shape t)) = str_nat (snd (shape u))
      \<and> f (sample_flat t) = f (sample_flat u))"
    by (simp add: split_at_sep str_nat_no_sep)
  also have "\<dots> = (shape t = shape u \<and> f (sample_flat t) = f (sample_flat u))"
    by (auto simp: prod_eq_iff dest: str_nat_inj)
  finally show ?thesis .
qed

text \<open>
  Claim C1, amended. The signature of a table is its shape \<open>rows x columns\<close>, a colon and the
  stringified flattening of at most its first 3 rows and first 3 columns, so that two tables
  have the same signature exactly when they have the same number of rows, the same number of
  columns and the same stringified sample; of the non-empty candidates, taken in the order
  of the candidate lists given to it, \<open>combine_tables\<close> keeps the first one of every signature
  and drops the later ones; so no two tables of the result have the same signature.
\<close>

theorem combine_tables_dedup_signature:
  "signature f t =
     str_nat (length (df_values t)) @ ''x'' @ str_nat (length (df_columns t)) @ '':'' @
     f (concat (map (take (min 3 (length (df_columns t))))
                    (take (min 3 (length (df_values t))) (df_values t))))
   \<and> (signature f t = signature f u) =
       (length (df_values t) = length (df_values u)
        \<and> length (df_columns t) = length (df_columns u)
        \<and> f (concat (map (take (min 3 (length (df_columns t))))
                          (take (min 3 (length (df_values t))) (df_values t))))
          = f (concat (map (take (min 3 (length (df_columns u))))
                          (take (min 3 (length (df_values u))) (df_values u)))))
   \<and> combine_tables f xs = keep_first (signature f) (filter (\<lambda>t. \<not> empty_df t) (concat xs))
   \<and> distinct (map (signature f) (combine_tables f xs))"
proof (intro conjI)
  show "signature f t =
     str_nat (length (df_values t)) @ ''x'' @ str_nat (length (df_columns t)) @ '':'' @
     f (concat (map (take (min 3 (length (df_columns t))))
                    (take (min 3 (length (df_values t))) (df_values t))))"
    by (simp add: signature_def sample_flat_def shape_def Let_def)
  show "(signature f t = signature f u) =
       (length (df_values t) = length (df_values u)
        \<and> length (df_columns t) = length (df_columns u)
        \<and> f (concat (map (take (min 3 (length (df_columns t))))
                          (take (min 3 (length (df_values t))) (df_values t))))
          = f (concat (map (take (min 3 (length (df_columns u))))
                          (take (min 3 (length (df_values u))) (df_values u)))))"
    using signature_eq_iff [of f t u]
    by (simp add: sample_flat_def shape_def Let_def)
  show "combine_tables f xs = keep_first (signature f) (filter (\<lambda>t. \<not> empty_df t) (concat xs))"
    by (rule combine_tables_keep_first)
  show "distinct (map (signature f) (combine_tables f xs))"
    by (simp add: combine_tables_keep_first keep_first_distinct)
qed

text \<open>
  The scenario of the specification: two candidate lists hold 3x4 tables with the same first
  three columns and different fourth columns; the table of the first list is kept.
\<close>

theorem combine_tables_dedup_signature_witness:
  "combine_tables example_str [[corner_a], [corner_b]] = [corner_a]
   \<and> distinct (map (signature example_str) (combine_tables example_str [[corner_a], [corner_b]]))"
proof -
  have "combine_tables example_str [[corner_a], [corner_b]] = [corner_a]"
    using combine_tables_dedup_signature
      [of example_str corner_a corner_b "[[corner_a], [corner_b]]"]
    by (simp add: sig_corner corner_nonempty)
  then show ?thesis by simp
qed

text \<open>
  Claim C6, as stated, fails: a candidate with a row and a column whose cells are all blank
  has no non-empty cell, and \<open>combine_tables\<close> keeps it, since \<^verbatim>\<open>table.empty\<close> looks at
  the shape only.
\<close>

theorem combine_tables_keeps_blank_grid:
  "nonempty_cells blank_1x1 = 0 \<and> combine_tables example_str [[blank_1x1]] = [blank_1x1]"
  by (simp add: nonempty_cells_def blank_1x1_def combine_tables_def empty_df_def shape_def)

text \<open>
  Claim C6, amended. A candidate with no row or with no column never appears in the result
  of \<open>combine_tables\<close>.
\<close>

theorem combine_tables_discards_empty_shape:
  "df_values t = [] \<or> df_columns t = [] \<Longrightarrow> t \<notin> set (combine_tables f xs)"
  using combine_tables_nonempty [of t f xs] by (auto simp: empty_df_def shape_def)

theorem combine_tables_discards_empty_shape_witness:
  "(df_values no_rows = [] \<or> df_columns no_rows = [])
   \<and> no_rows \<in> set (concat [[no_rows, blank_1x1]])
   \<and> no_rows \<notin> set (combine_tables example_str [[no_rows, blank_1x1]])"
  using combine_tables_discards_empty_shape [of no_rows example_str "[[no_rows, blank_1x1]]"]
  by (simp add: no_rows_def)

text \<open>
  Claim C8. The reconciler is idempotent: \<open>combine_tables\<close> run on its own result, given as
  one candidate list, returns that result.
\<close>

theorem combine_tables_idempotent:
  "combine_tables f [combine_tables f xs] = combine_tables f xs"
proof -
  let ?r = "combine_tables f xs"
  have ne: "filter (\<lambda>t. \<not> empty_df t) ?r = ?r"
    using combine_tables_nonempty [of _ f xs] by (simp add: filter_id_conv)
  have "distinct (map (signature f) ?r)"
    by (simp add: combine_tables_keep_first keep_first_distinct)
  then have "keep_first (signature f) ?r = ?r" by (rule keep_first_id)
  with ne show ?thesis
    using combine_tables_keep_first [of f "[?r]"] by simp
qed

lemma fold_max_const:
  "\<forall>r \<in> set rows. length r = c \<Longrightarrow> rows \<noteq> [] \<Longrightarrow> fold max (map length rows) a = max a c"
proof (induction rows arbitrary: a)
  case Nil
  then show ?case by simp
next
  case (Cons r rows)
  show ?case
  proof (cases "rows = []")
    case True
    with Cons.prems show ?thesis by (simp add: max.commute)
  next
    case False
    with Cons show ?thesis by (simp add: max.assoc max.commute)
  qed
qed

lemma table_rows_length: "length (table_rows t) = row_count t"
  by (simp add: table_rows_def)

lemma table_rows_row_length: "r \<in> set (table_rows t) \<Longrightarrow> length r = column_count t"
  by (auto simp: table_rows_def)

lemma DataFrame_table_rows:
  assumes "0 < row_count t"
  shows "DataFrame (table_rows t) =
           \<lparr>df_columns = map Idx [0..<column_count t], df_values = table_rows t, df_page = None\<rparr>"
proof -
  have ne: "table_rows t \<noteq> []"
    using assms table_rows_length [of t] by auto
  have n: "fold max (map length (table_rows t)) 0 = column_count t"
    using fold_max_const [of "table_rows t" "column_count t" 0] ne table_rows_row_length
    by simp
  have "map (\<lambda>r. r @ replicate (column_count t - length r) NaN) (table_rows t) = table_rows t"
    by (rule map_idI) (simp add: table_rows_row_length)
  with n show ?thesis by (simp add: DataFrame_def Let_def)
qed

lemma hd_table_rows:
  "0 < row_count t \<Longrightarrow>
   hd (table_rows t) =
     map (\<lambda>j. case extract_cell t 0 j of Some text \<Rightarrow> Str text | None \<Rightarrow> Str []) [0..<column_count t]"
  by (simp add: table_rows_def hd_map upt_conv_Cons)

lemma first_row_not_na:
  assumes "0 < row_count t" "0 < column_count t"
  shows "\<not> list_all isna (hd (table_rows t))"
proof -
  have "\<not> isna (case extract_cell t 0 0 of Some text \<Rightarrow> Str text | None \<Rightarrow> Str [])"
    by (simp split: option.split)
  moreover have "(case extract_cell t 0 0 of Some text \<Rightarrow> Str text | None \<Rightarrow> Str [])
      \<in> set (hd (table_rows t))"
    using assms by (simp add: hd_table_rows)
  ultimately show ?thesis by (auto simp: list_all_iff)
qed

section \<open>Claims about the backends\<close>

text \<open>
  Claim C7, amended. For a table of the PyMuPDF backend with at least one row: when the first
  row holds a non-empty text in at least one cell, it becomes the header (the column labels)
  and the remaining rows are the data; when the table has no column, nothing is promoted and
  the labels stay the default ones; a table without rows gives no DataFrame at all.
\<close>

theorem pymupdf_header_promotion:
  "(0 < row_count t \<and> (\<exists>j < column_count t. \<exists>s. extract_cell t 0 j = Some s \<and> s \<noteq> [])
      \<longrightarrow> table_to_dfs t =
            [\<lparr>df_columns = map Lbl (hd (table_rows t)), df_values = tl (table_rows t),
              df_page = None\<rparr>])
   \<and> (0 < row_count t \<and> column_count t = 0
      \<longrightarrow> table_to_dfs t =
            [\<lparr>df_columns = [], df_values = table_rows t, df_page = None\<rparr>])
   \<and> (row_count t = 0 \<longrightarrow> table_to_dfs t = [])"
proof (intro conjI impI)
  assume a: "0 < row_count t \<and> (\<exists>j < column_count t. \<exists>s. extract_cell t 0 j = Some s \<and> s \<noteq> [])"
  then have r: "0 < row_count t" and c: "0 < column_count t" by auto
  have ne: "table_rows t \<noteq> []" using r table_rows_length [of t] by auto
  have "\<not> empty_df (DataFrame (table_rows t))"
    using r c by (simp add: DataFrame_table_rows empty_df_def shape_def table_rows_length)
  then show "table_to_dfs t =
            [\<lparr>df_columns = map Lbl (hd (table_rows t)), df_values = tl (table_rows t),
              df_page = None\<rparr>]"
    using r c ne first_row_not_na [of t]
    by (simp add: table_to_dfs_def promote_header_def DataFrame_table_rows Let_def)
next
  assume a: "0 < row_count t \<and> column_count t = 0"
  then have ne: "table_rows t \<noteq> []" using table_rows_length [of t] by auto
  have "empty_df (DataFrame (table_rows t))"
    using a by (simp add: DataFrame_table_rows empty_df_def shape_def)
  then show "table_to_dfs t = [\<lparr>df_columns = [], df_values = table_rows t, df_page = None\<rparr>]"
    using a ne by (simp add: table_to_dfs_def promote_header_def DataFrame_table_rows Let_def)
next
  assume "row_count t = 0"
  then show "table_to_dfs t = []"
    by (simp add: table_to_dfs_def table_rows_def)
qed

lemma header_table_rows:
  "table_rows header_table = [[Str ''Name'', Str []], [Str ''v'', Str ''v'']]"
  by (simp add: table_rows_def header_table_def upt_conv_Cons)

theorem pymupdf_header_promotion_witness:
  "0 < row_count header_table
   \<and> (\<exists>j < column_count header_table. \<exists>s. extract_cell header_table 0 j = Some s \<and> s \<noteq> [])
   \<and> table_to_dfs header_table =
       [\<lparr>df_columns = [Lbl (Str ''Name''), Lbl (Str [])], df_values = [[Str ''v'', Str ''v'']],
         df_page = None\<rparr>]"
proof -
  have h: "0 < row_count header_table
     \<and> (\<exists>j < column_count header_table. \<exists>s. extract_cell header_table 0 j = Some s \<and> s \<noteq> [])"
    by (auto simp: header_table_def intro: exI [of _ 0])
  with pymupdf_header_promotion [of header_table] show ?thesis
    by (simp add: header_table_rows)
qed

text \<open>
  Claim C7, as stated, fails: a first row with one blank cell is promoted to the header all
  the same.
\<close>

theorem pymupdf_promotes_row_with_blank_cell:
  "\<not> list_all (\<lambda>c. c \<noteq> NaN \<and> c \<noteq> Str []) (hd (table_rows header_table))
   \<and> table_to_dfs header_table =
       [\<lparr>df_columns = [Lbl (Str ''Name''), Lbl (Str [])], df_values = [[Str ''v'', Str ''v'']],
         df_page = None\<rparr>]"
  by (simp add: header_table_rows table_to_dfs_def promote_header_def DataFrame_def
      empty_df_def shape_def Let_def)

lemma camelot_extract_never_raises: "\<exists>ts. camelot_extract_tables w p n = Inr ts"
  by (simp add: camelot_extract_tables_def split: sum.split)

lemma tabula_extract_never_raises: "\<exists>ts. tabula_extract_tables w p n = Inr ts"
  by (simp add: tabula_extract_tables_def split: sum.split)

lemma camelot_probe_never_raises: "\<exists>b. camelot_is_compatible w p = Inr b"
  by (auto simp: camelot_is_compatible_def split: sum.split)

text \<open>
  Claim C3 holds of the Camelot and Tabula adapters (the two lemmas above) and fails on the
  PyMuPDF adapter, whose \<^verbatim>\<open>extract_tables\<close> has no handler: on a document that cannot be
  opened and on a page number beyond the last page it raises, where the two other adapters
  return the empty list.
\<close>

theorem pymupdf_extract_tables_raises:
  "extract_tables PyMuPDFTableExtractor unopenable_world ''scan.pdf'' 0 = Inl OSError
   \<and> extract_tables PyMuPDFTableExtractor one_page_world ''scan.pdf'' 5 = Inl IndexError
   \<and> extract_tables CamelotTableExtractor unopenable_world ''scan.pdf'' 0 = Inr []
   \<and> extract_tables TabulaTableExtractor unopenable_world ''scan.pdf'' 0 = Inr []"
  by (simp add: pymupdf_extract_tables_def camelot_extract_tables_def tabula_extract_tables_def
      unopenable_world_def one_page_world_def doc_getitem_def)

text \<open>
  Claim C9, as stated, fails: when the import of \<^verbatim>\<open>jpype\<close> raises an exception that is
  not an \<^verbatim>\<open>ImportError\<close>, the probe of the Tabula backend raises it.
\<close>

theorem tabula_probe_raises:
  "is_compatible TabulaTableExtractor broken_jpype_world ''scan.pdf'' = Inl OSError"
  by (simp add: tabula_is_compatible_def broken_jpype_world_def one_page_world_def)

text \<open>
  Claim C9, amended. The probe of the PyMuPDF backend answers true; the probe of the Camelot
  backend never raises and answers false when the document cannot be opened or has no page;
  the probe of the Tabula backend never raises when the import of \<^verbatim>\<open>jpype\<close> succeeds or
  fails with \<^verbatim>\<open>ImportError\<close>, and answers false when, after an \<^verbatim>\<open>ImportError\<close>, the call
  of \<^verbatim>\<open>java -version\<close> fails.
\<close>

theorem probes_absorb_failures:
  "is_compatible PyMuPDFTableExtractor w p = Inr True
   \<and> (\<exists>b. is_compatible CamelotTableExtractor w p = Inr b)
   \<and> ((\<exists>e. fitz_open w p = Inl e) \<longrightarrow> is_compatible CamelotTableExtractor w p = Inr False)
   \<and> (fitz_open w p = Inr [] \<longrightarrow> is_compatible CamelotTableExtractor w p = Inr False)
   \<and> (import_jpype w = Inr () \<or> import_jpype w = Inl ImportError
        \<longrightarrow> (\<exists>b. is_compatible TabulaTableExtractor w p = Inr b))
   \<and> (import_jpype w = Inl ImportError \<and> (\<exists>e. java_version w = Inl e)
        \<longrightarrow> is_compatible TabulaTableExtractor w p = Inr False)"
  by (auto simp: camelot_is_compatible_def tabula_is_compatible_def doc_getitem_def
      split: sum.split)

theorem probes_absorb_failures_witness:
  "(\<exists>e. fitz_open unopenable_world ''scan.pdf'' = Inl e)
   \<and> import_jpype unopenable_world = Inl ImportError
   \<and> (\<exists>e. java_version unopenable_world = Inl e)
   \<and> is_compatible CamelotTableExtractor unopenable_world ''scan.pdf'' = Inr False
   \<and> is_compatible TabulaTableExtractor unopenable_world ''scan.pdf'' = Inr False"
  using probes_absorb_failures [of unopenable_world "''scan.pdf''"]
  by (simp add: unopenable_world_def)

lemma choose_best_priority:
  "choose_best cs =
     (if CamelotTableExtractor \<in> set cs then CamelotTableExtractor
      else if TabulaTableExtractor \<in> set cs then TabulaTableExtractor
      else if cs \<noteq> [] then hd cs
      else PyMuPDFTableExtractor)"
proof -
  have f: "\<And>x. (find (\<lambda>e. e = x) cs = None) = (x \<notin> set cs)"
    by (auto simp: find_None_iff)
  have g: "\<And>x e. find (\<lambda>e. e = x) cs = Some e \<Longrightarrow> e = x \<and> x \<in> set cs"
    by (auto simp: find_Some_iff)
  show ?thesis
    by (auto simp: choose_best_def f dest: g split: option.split)
qed

text \<open>
  Claim C4, amended. On a list of compatible backends the selection is Camelot if it is in
  the list, else Tabula if it is in the list, else the first of the list, else (empty list)
  PyMuPDF; and whenever the probe of the Tabula backend returns, \<open>get_best_extractor\<close> returns
  a backend: Camelot if it is compatible, else Tabula if it is compatible, else PyMuPDF.
\<close>

theorem get_best_extractor_priority:
  "choose_best cs =
     (if CamelotTableExtractor \<in> set cs then CamelotTableExtractor
      else if TabulaTableExtractor \<in> set cs then TabulaTableExtractor
      else if cs \<noteq> [] then hd cs
      else PyMuPDFTableExtractor)
   \<and> ((\<exists>b. is_compatible TabulaTableExtractor w p = Inr b) \<longrightarrow>
        get_best_extractor w p =
          Inr (if is_compatible CamelotTableExtractor w p = Inr True then CamelotTableExtractor
               else if is_compatible TabulaTableExtractor w p = Inr True then TabulaTableExtractor
               else PyMuPDFTableExtractor))"
proof (intro conjI impI)
  show "choose_best cs =
     (if CamelotTableExtractor \<in> set cs then CamelotTableExtractor
      else if TabulaTableExtractor \<in> set cs then TabulaTableExtractor
      else if cs \<noteq> [] then hd cs
      else PyMuPDFTableExtractor)"
    by (rule choose_best_priority)
next
  assume "\<exists>b. is_compatible TabulaTableExtractor w p = Inr b"
  then obtain tb where tb: "tabula_is_compatible w p = Inr tb" by auto
  obtain cb where cb: "camelot_is_compatible w p = Inr cb"
    using camelot_probe_never_raises by blast
  show "get_best_extractor w p =
          Inr (if is_compatible CamelotTableExtractor w p = Inr True then CamelotTableExtractor
               else if is_compatible TabulaTableExtractor w p = Inr True then TabulaTableExtractor
               else PyMuPDFTableExtractor)"
    using tb cb
    by (simp add: get_best_extractor_def create_extractors_def choose_best_priority)
qed

theorem get_best_extractor_priority_witness:
  "(\<exists>b. is_compatible TabulaTableExtractor unopenable_world ''scan.pdf'' = Inr b)
   \<and> get_best_extractor unopenable_world ''scan.pdf'' = Inr PyMuPDFTableExtractor
   \<and> choose_best [] = PyMuPDFTableExtractor"
proof -
  have t: "is_compatible TabulaTableExtractor unopenable_world ''scan.pdf'' = Inr False"
    by (simp add: unopenable_world_def tabula_is_compatible_def)
  have c: "is_compatible CamelotTableExtractor unopenable_world ''scan.pdf'' = Inr False"
    by (simp add: unopenable_world_def camelot_is_compatible_def)
  from t have h: "\<exists>b. is_compatible TabulaTableExtractor unopenable_world ''scan.pdf'' = Inr b"
    by blast
  with get_best_extractor_priority [of "[]" unopenable_world "''scan.pdf''"] t c h
  show ?thesis by simp
qed

text \<open>
  Claim C4, as stated, fails: \<open>get_best_extractor\<close> does not always return a backend, since
  it raises what the probe of the Tabula backend raises.
\<close>

theorem get_best_extractor_raises:
  "get_best_extractor broken_jpype_world ''scan.pdf'' = Inl OSError"
  by (simp add: get_best_extractor_def create_extractors_def camelot_is_compatible_def
      tabula_is_compatible_def broken_jpype_world_def one_page_world_def doc_getitem_def
      split: sum.split)

lemma try_all_collect:
  "\<forall>e \<in> set es. \<exists>b. is_compatible e w p = Inr b \<Longrightarrow>
   \<forall>e \<in> set es. is_compatible e w p = Inr True \<longrightarrow> (\<exists>ts. extract_tables e w p n = Inr ts) \<Longrightarrow>
   try_all w p n es acc =
     Inr (acc @ collect_results w p n (filter (\<lambda>e. is_compatible e w p = Inr True) es))"
proof (induction es arbitrary: acc)
  case Nil
  show ?case by simp
next
  case (Cons e es)
  then obtain b where b: "is_compatible e w p = Inr b" by auto
  from Cons have ih: "\<And>acc. try_all w p n es acc =
     Inr (acc @ collect_results w p n (filter (\<lambda>e. is_compatible e w p = Inr True) es))"
    by simp
  show ?case
  proof (cases b)
    case True
    with b Cons.prems(2) obtain ts where "extract_tables e w p n = Inr ts" by auto
    with b True show ?thesis by (simp add: ih)
  next
    case False
    with b show ?thesis by (simp add: ih)
  qed
qed

lemma collect_results_skip:
  "extract_tables ex w p n = Inr [] \<Longrightarrow>
   collect_results w p n (filter P es) = collect_results w p n (filter (\<lambda>e. e \<noteq> ex \<and> P e) es)"
  by (induction es) (auto split: sum.split)

lemma best_probes_return:
  assumes "get_best_extractor w p = Inr ex"
  shows "\<forall>e \<in> set create_extractors. \<exists>b. is_compatible e w p = Inr b"
proof -
  obtain cb where cb: "camelot_is_compatible w p = Inr cb"
    using camelot_probe_never_raises by blast
  from assms obtain tb where "tabula_is_compatible w p = Inr tb"
    by (cases "tabula_is_compatible w p")
       (simp_all add: get_best_extractor_def create_extractors_def cb)
  with cb show ?thesis by (auto simp: create_extractors_def)
qed

section \<open>Claims about the pipeline\<close>

text \<open>
  When the selected backend returns no table for a page and no compatible backend raises,
  the candidate collection given to \<open>combine_tables\<close> for that page is made of the non-empty
  results of every other compatible backend, in the order of \<open>create_extractors\<close>. (The loop
  of the code runs the selected backend again; it returns no table again and adds nothing.)
\<close>

lemma fallback_collects_when_backends_return:
  assumes best: "get_best_extractor w p = Inr ex"
    and none: "extract_tables ex w p n = Inr []"
    and ret: "\<forall>e \<in> set create_extractors.
        is_compatible e w p = Inr True \<longrightarrow> (\<exists>ts. extract_tables e w p n = Inr ts)"
  shows "page_candidates w p n =
     Inr (collect_results w p n
       (filter (\<lambda>e. e \<noteq> ex \<and> is_compatible e w p = Inr True) create_extractors))"
proof -
  have "page_candidates w p n = try_all w p n create_extractors []"
    using best none by (simp add: page_candidates_def)
  also have "\<dots> = Inr ([] @ collect_results w p n
        (filter (\<lambda>e. is_compatible e w p = Inr True) create_extractors))"
    using best_probes_return [OF best] ret by (rule try_all_collect)
  also have "collect_results w p n
        (filter (\<lambda>e. is_compatible e w p = Inr True) create_extractors)
      = collect_results w p n
        (filter (\<lambda>e. e \<noteq> ex \<and> is_compatible e w p = Inr True) create_extractors)"
    using none by (rule collect_results_skip)
  finally show ?thesis by simp
qed

lemma strip_example: "strip (page_text example_page) \<noteq> []"
  by (simp add: strip_def is_space_def example_page_def)

lemma one_page_probes:
  "camelot_is_compatible one_page_world p = Inr True"
  "tabula_is_compatible one_page_world p = Inr True"
  by (simp_all add: camelot_is_compatible_def tabula_is_compatible_def one_page_world_def
      doc_getitem_def strip_example)

lemma one_page_best: "get_best_extractor one_page_world p = Inr CamelotTableExtractor"
  by (simp add: get_best_extractor_def create_extractors_def one_page_probes
      choose_best_priority)

lemma one_page_camelot: "camelot_extract_tables one_page_world p n = Inr []"
  by (simp add: camelot_extract_tables_def one_page_world_def)

lemma one_page_tabula: "tabula_extract_tables one_page_world p n = Inr []"
  by (simp add: tabula_extract_tables_def one_page_world_def)

lemma header_table_dfs: "table_to_dfs header_table = [example_df]"
  by (simp add: header_table_rows table_to_dfs_def promote_header_def DataFrame_def
      empty_df_def shape_def Let_def example_df_def)

lemma one_page_pymupdf:
  "n < 1 \<Longrightarrow> pymupdf_extract_tables one_page_world p n = Inr [example_df]"
  by (simp add: pymupdf_extract_tables_def one_page_world_def doc_getitem_def example_page_def
      header_table_dfs)

lemma tabula_world_probes:
  "camelot_is_compatible tabula_world p = Inr True"
  "tabula_is_compatible tabula_world p = Inr True"
  by (simp_all add: camelot_is_compatible_def tabula_is_compatible_def tabula_world_def
      one_page_world_def doc_getitem_def strip_example)

lemma tabula_world_best: "get_best_extractor tabula_world p = Inr CamelotTableExtractor"
  by (simp add: get_best_extractor_def create_extractors_def tabula_world_probes
      choose_best_priority)

lemma tabula_world_extract:
  "camelot_extract_tables tabula_world p n = Inr []"
  "tabula_extract_tables tabula_world p n = Inr [tabula_df]"
  "pymupdf_extract_tables tabula_world p 0 = Inr [example_df]"
  by (simp_all add: camelot_extract_tables_def tabula_extract_tables_def
      pymupdf_extract_tables_def tabula_world_def one_page_world_def doc_getitem_def
      example_page_def header_table_dfs tabula_df_def)

lemma tabula_world_candidates:
  "page_candidates tabula_world p 0 = Inr [[example_df], [tabula_df]]"
  by (simp add: page_candidates_def tabula_world_best tabula_world_extract
      create_extractors_def tabula_world_probes tabula_df_def)

lemma tabula_df_signature:
  "signature f tabula_df = signature f example_df"
  by (simp add: signature_def sample_flat_def shape_def tabula_df_def example_df_def Let_def)

text \<open>
  Claim C1, as stated, fails on the order: the candidate lists reach \<open>combine_tables\<close> in the
  order of \<open>create_extractors\<close> (PyMuPDF, Camelot, Tabula), not in the order of the selector
  (Camelot, Tabula, PyMuPDF). Tabula ranks above PyMuPDF, both report a table with the same
  signature, and the table of PyMuPDF is the one that is kept.
\<close>

theorem combine_tables_keeps_lower_priority:
  "choose_best [PyMuPDFTableExtractor, TabulaTableExtractor] = TabulaTableExtractor
   \<and> page_candidates tabula_world ''scan.pdf'' 0 = Inr [[example_df], [tabula_df]]
   \<and> signature example_str tabula_df = signature example_str example_df
   \<and> tabula_df \<noteq> example_df
   \<and> combine_tables example_str [[example_df], [tabula_df]] = [example_df]
   \<and> extract_all_tables tabula_world ''scan.pdf'' None = Inr [example_df\<lparr>df_page := Some 0\<rparr>]"
proof (intro conjI)
  show "choose_best [PyMuPDFTableExtractor, TabulaTableExtractor] = TabulaTableExtractor"
    by (simp add: choose_best_priority)
  show c: "page_candidates tabula_world ''scan.pdf'' 0 = Inr [[example_df], [tabula_df]]"
    by (rule tabula_world_candidates)
  show "signature example_str tabula_df = signature example_str example_df"
    by (rule tabula_df_signature)
  show "tabula_df \<noteq> example_df"
    by (simp add: tabula_df_def example_df_def)
  have ne: "\<not> empty_df example_df" "\<not> empty_df tabula_df"
    by (simp_all add: empty_df_def shape_def example_df_def tabula_df_def)
  show k: "combine_tables example_str [[example_df], [tabula_df]] = [example_df]"
    by (simp add: combine_tables_keep_first ne tabula_df_signature)
  have "np_str tabula_world = example_str" "fitz_open tabula_world ''scan.pdf'' = Inr [example_page]"
    by (simp_all add: tabula_world_def one_page_world_def)
  then show "extract_all_tables tabula_world ''scan.pdf'' None
      = Inr [example_df\<lparr>df_page := Some 0\<rparr>]"
    by (simp add: extract_all_tables_def c k)
qed

lemma raising_world_probes:
  "camelot_is_compatible raising_world p = Inr True"
  "tabula_is_compatible raising_world p = Inr True"
proof -
  have "strip (page_text raising_page) \<noteq> []"
    using strip_example by (simp add: raising_page_def)
  then show "camelot_is_compatible raising_world p = Inr True"
    by (simp add: camelot_is_compatible_def raising_world_def tabula_world_def
        one_page_world_def doc_getitem_def)
  show "tabula_is_compatible raising_world p = Inr True"
    by (simp add: tabula_is_compatible_def raising_world_def tabula_world_def
        one_page_world_def)
qed

lemma raising_world_best: "get_best_extractor raising_world p = Inr CamelotTableExtractor"
  by (simp add: get_best_extractor_def create_extractors_def raising_world_probes
      choose_best_priority)

lemma raising_world_extract:
  "camelot_extract_tables raising_world p n = Inr []"
  "tabula_extract_tables raising_world p n = Inr [tabula_df]"
  "pymupdf_extract_tables raising_world p 0 = Inl RuntimeError"
  by (simp_all add: camelot_extract_tables_def tabula_extract_tables_def
      pymupdf_extract_tables_def raising_world_def tabula_world_def one_page_world_def
      doc_getitem_def raising_page_def tabula_df_def)

text \<open>
  Claim C5 fails on the code, by the defect of claim C3. Camelot is selected and returns no
  table; Tabula is compatible and would return a table, so that the collection the claim
  describes holds that table; but the loop runs the PyMuPDF adapter first, the table search
  of PyMuPDF raises, the adapter does not catch it, and the pipeline stops with the exception
  before Tabula is run.
\<close>

theorem fallback_stops_when_pymupdf_raises:
  "get_best_extractor raising_world ''scan.pdf'' = Inr CamelotTableExtractor
   \<and> extract_tables CamelotTableExtractor raising_world ''scan.pdf'' 0 = Inr []
   \<and> is_compatible TabulaTableExtractor raising_world ''scan.pdf'' = Inr True
   \<and> extract_tables TabulaTableExtractor raising_world ''scan.pdf'' 0 = Inr [tabula_df]
   \<and> collect_results raising_world ''scan.pdf'' 0
         (filter (\<lambda>e. e \<noteq> CamelotTableExtractor
                      \<and> is_compatible e raising_world ''scan.pdf'' = Inr True) create_extractors)
       = [[tabula_df]]
   \<and> page_candidates raising_world ''scan.pdf'' 0 = Inl RuntimeError
   \<and> extract_all_tables raising_world ''scan.pdf'' None = Inl RuntimeError"
proof (intro conjI)
  show "get_best_extractor raising_world ''scan.pdf'' = Inr CamelotTableExtractor"
    by (rule raising_world_best)
  show "extract_tables CamelotTableExtractor raising_world ''scan.pdf'' 0 = Inr []"
    by (simp add: raising_world_extract)
  show "is_compatible TabulaTableExtractor raising_world ''scan.pdf'' = Inr True"
    by (simp add: raising_world_probes)
  show "extract_tables TabulaTableExtractor raising_world ''scan.pdf'' 0 = Inr [tabula_df]"
    by (simp add: raising_world_extract)
  show "collect_results raising_world ''scan.pdf'' 0
         (filter (\<lambda>e. e \<noteq> CamelotTableExtractor
                      \<and> is_compatible e raising_world ''scan.pdf'' = Inr True) create_extractors)
       = [[tabula_df]]"
    by (simp add: create_extractors_def raising_world_probes raising_world_extract
        tabula_df_def)
  show c: "page_candidates raising_world ''scan.pdf'' 0 = Inl RuntimeError"
    by (simp add: page_candidates_def raising_world_best raising_world_extract
        create_extractors_def)
  have "fitz_open raising_world ''scan.pdf'' = Inr [raising_page]"
    by (simp add: raising_world_def)
  then show "extract_all_tables raising_world ''scan.pdf'' None = Inl RuntimeError"
    by (simp add: extract_all_tables_def c)
qed

lemma pages_loop_skip:
  "pages_loop w p n ps acc = pages_loop w p n (filter (\<lambda>i. i < n) ps) acc"
  by (induction ps arbitrary: acc) (auto split: sum.split)

lemma pages_loop_tags:
  "pages_loop w p n ps acc = Inr ts \<Longrightarrow> t \<in> set ts \<Longrightarrow>
   t \<in> set acc \<or> (\<exists>i \<in> set ps. df_page t = Some i \<and> i < n)"
proof (induction ps arbitrary: acc)
  case Nil
  then show ?case by simp
next
  case (Cons i ps)
  show ?case
  proof (cases "i \<ge> n")
    case True
    with Cons.prems have "pages_loop w p n ps acc = Inr ts" by simp
    from Cons.IH [OF this Cons.prems(2)] show ?thesis by auto
  next
    case False
    with Cons.prems(1) obtain cands where
      c: "page_candidates w p i = Inr cands" and
      l: "pages_loop w p n ps
            (acc @ map (\<lambda>table. table\<lparr>df_page := Some i\<rparr>) (combine_tables (np_str w) cands)) = Inr ts"
      by (cases "page_candidates w p i") (simp_all add: Let_def)
    from Cons.IH [OF l Cons.prems(2)] False show ?thesis by auto
  qed
qed

text \<open>
  Claim C10, amended. On a document that opens, a requested page number at or above the page
  count has no effect at all on \<open>extract_all_tables\<close>: the call equals the call without
  these numbers. Every table of the result carries one of the requested page numbers, and
  that number is below the page count; with the default argument (every page) it is a valid
  0-based page index.
\<close>

theorem extract_all_tables_skips_high_pages:
  "fitz_open w p = Inr doc \<Longrightarrow>
   extract_all_tables w p (Some ps)
     = extract_all_tables w p (Some (filter (\<lambda>i. i < int (length doc)) ps))
   \<and> (\<forall>ts. extract_all_tables w p (Some ps) = Inr ts \<longrightarrow>
         (\<forall>t \<in> set ts. \<exists>i \<in> set ps. df_page t = Some i \<and> i < int (length doc)))
   \<and> (\<forall>ts. extract_all_tables w p None = Inr ts \<longrightarrow>
         (\<forall>t \<in> set ts. \<exists>i. df_page t = Some i \<and> 0 \<le> i \<and> i < int (length doc)))"
proof (intro conjI allI impI ballI)
  assume d: "fitz_open w p = Inr doc"
  show "extract_all_tables w p (Some ps)
     = extract_all_tables w p (Some (filter (\<lambda>i. i < int (length doc)) ps))"
    using d pages_loop_skip [of w p "int (length doc)" ps "[]"]
    by (simp add: extract_all_tables_def)
next
  fix ts t
  assume d: "fitz_open w p = Inr doc"
    and r: "extract_all_tables w p (Some ps) = Inr ts" and t: "t \<in> set ts"
  from d r have "pages_loop w p (int (length doc)) ps [] = Inr ts"
    by (simp add: extract_all_tables_def)
  from pages_loop_tags [OF this t]
  show "\<exists>i \<in> set ps. df_page t = Some i \<and> i < int (length doc)" by simp
next
  fix ts t
  assume d: "fitz_open w p = Inr doc"
    and r: "extract_all_tables w p None = Inr ts" and t: "t \<in> set ts"
  from d r have "pages_loop w p (int (length doc)) (map int [0..<length doc]) [] = Inr ts"
    by (simp add: extract_all_tables_def)
  from pages_loop_tags [OF this t]
  show "\<exists>i. df_page t = Some i \<and> 0 \<le> i \<and> i < int (length doc)" by auto
qed

lemma one_page_candidates:
  "n < 1 \<Longrightarrow> page_candidates one_page_world p n = Inr [[example_df]]"
  by (simp add: page_candidates_def one_page_best one_page_camelot create_extractors_def
      one_page_probes one_page_pymupdf one_page_tabula)

lemma combine_example_df: "combine_tables f [[example_df]] = [example_df]"
  by (simp add: combine_tables_def empty_df_def shape_def example_df_def)

lemma one_page_np_str: "np_str one_page_world = example_str"
  by (simp add: one_page_world_def)

lemma one_page_open: "fitz_open one_page_world p = Inr [example_page]"
  by (simp add: one_page_world_def)

lemma one_page_extract:
  "n < 1 \<Longrightarrow> extract_all_tables one_page_world p (Some [n])
     = Inr [example_df\<lparr>df_page := Some n\<rparr>]"
  by (simp add: extract_all_tables_def one_page_open one_page_candidates one_page_np_str
      combine_example_df)

theorem extract_all_tables_skips_high_pages_witness:
  "fitz_open one_page_world ''scan.pdf'' = Inr [example_page]
   \<and> extract_all_tables one_page_world ''scan.pdf'' (Some [0, 3])
       = Inr [example_df\<lparr>df_page := Some 0\<rparr>]"
  using extract_all_tables_skips_high_pages [OF one_page_open, of "''scan.pdf''" "[0, 3]"]
  by (simp add: one_page_open one_page_extract)

text \<open>
  Claim C10, as stated, fails: a negative page number is not skipped; PyMuPDF reads it from
  the end of the document, and the table found there is tagged with the negative number,
  which is not a 0-based page index.
\<close>

theorem extract_all_tables_negative_page:
  "extract_all_tables one_page_world ''scan.pdf'' (Some [-1])
     = Inr [example_df\<lparr>df_page := Some (-1)\<rparr>]"
  by (simp add: one_page_extract)

lemma free_blocks_mset:
  "mset (free_blocks w rects blocks)
     = filter_mset (\<lambda>b. \<not> overlaps_table w rects b) (mset blocks)"
  by (simp add: free_blocks_def)

section \<open>Claims about the conversion to DOCX\<close>

text \<open>
  Claim C2. For a page with a non-empty table list whose table search succeeds, the page of
  the document is the heading, one paragraph for each free block, the tables and the page
  break; and every text block of the page is among the free blocks exactly as many times as
  it is among the blocks of the page (once for each occurrence) when its rectangle meets no
  table rectangle of the page, and not at all when it meets one.
\<close>

theorem docx_page_partitions_blocks:
  "filter (\<lambda>table. df_page table = Some k) with_tables \<noteq> [] \<Longrightarrow>
   page_find_tables pg = Inr tables \<Longrightarrow>
   docx_page w pg k n with_tables style =
     Inr (Heading (''Page '' @ str_int (k + 1)) 1
          # map (\<lambda>block. Paragraph (b_text block) False None)
              (free_blocks w (map t_rect tables) (page_blocks pg))
          @ concat (map (table_units style)
              (filter (\<lambda>table. df_page table = Some k) with_tables))
          @ (if k < n - 1 then [PageBreak] else []))
   \<and> (\<forall>b. count (mset (free_blocks w (map t_rect tables) (page_blocks pg))) b =
          (if \<exists>r \<in> set (map t_rect tables). rect_intersects w (b_rect b) r then 0
           else count (mset (page_blocks pg)) b))"
proof (intro conjI allI)
  assume a: "filter (\<lambda>table. df_page table = Some k) with_tables \<noteq> []"
    and f: "page_find_tables pg = Inr tables"
  from a have "with_tables \<noteq> []" by auto
  with a f show "docx_page w pg k n with_tables style =
     Inr (Heading (''Page '' @ str_int (k + 1)) 1
          # map (\<lambda>block. Paragraph (b_text block) False None)
              (free_blocks w (map t_rect tables) (page_blocks pg))
          @ concat (map (table_units style)
              (filter (\<lambda>table. df_page table = Some k) with_tables))
          @ (if k < n - 1 then [PageBreak] else []))"
    by (simp add: docx_page_def Let_def)
next
  fix b
  show "count (mset (free_blocks w (map t_rect tables) (page_blocks pg))) b =
          (if \<exists>r \<in> set (map t_rect tables). rect_intersects w (b_rect b) r then 0
           else count (mset (page_blocks pg)) b)"
    by (simp add: free_blocks_mset overlaps_table_def list_ex_iff)
qed

lemma example_free:
  "free_blocks one_page_world [t_rect header_table] (page_blocks example_page)
     = [top_block, footer_block]"
  by (simp add: free_blocks_def example_page_def overlaps_table_def one_page_world_def
      example_intersects_def header_table_def inner_block_def top_block_def footer_block_def)

lemma str_int_one: "str_int 1 = ''1''"
  by code_simp

theorem docx_page_partitions_blocks_witness:
  "filter (\<lambda>table. df_page table = Some 0) [example_df\<lparr>df_page := Some 0\<rparr>] \<noteq> []
   \<and> page_find_tables example_page = Inr [header_table]
   \<and> docx_page one_page_world example_page 0 1 [example_df\<lparr>df_page := Some 0\<rparr>] ''grid'' =
       Inr [Heading ''Page 1'' 1,
            Paragraph ''Title'' False None,
            Paragraph ''Footer'' False None,
            Paragraph ''Table'' True (Some 12),
            DocTable (example_df\<lparr>df_page := Some 0\<rparr>) ''Table Grid'',
            Paragraph [] False None]"
proof -
  have a: "filter (\<lambda>table. df_page table = Some 0) [example_df\<lparr>df_page := Some 0\<rparr>] \<noteq> []"
    by simp
  have f: "page_find_tables example_page = Inr [header_table]"
    by (simp add: example_page_def)
  from docx_page_partitions_blocks [OF a f, of one_page_world 1 "''grid''"] a f
  show ?thesis
    by (simp add: example_free str_int_one table_units_def add_table_from_dataframe_def
        get_table_style_name_def example_df_def top_block_def footer_block_def)
qed

end
